theory Spec2Isabelle
  imports Main "HOL-Library.Word"
begin

section \<open>Identifiers, statuses, errors\<close>

text \<open>
  \<^verbatim>\<open>ids.ID\<close> is a 32-byte hash and \<^verbatim>\<open>ids.ShortID\<close> a 20-byte one. The engine only
  compares them, so they are natural numbers here; \<open>0\<close> is the zero value \<^verbatim>\<open>ids.ID{}\<close>.
  Request ids are \<^verbatim>\<open>uint32\<close> and wrap around.
\<close>

type_synonym ID = nat
type_synonym ShortID = nat
type_synonym bytes = "8 word list"
type_synonym uint32 = "32 word"

text \<open>\<^verbatim>\<open>choices.Status\<close>. The package is not among the sources; the glossary of the
  specification gives \<open>Fetched\<close> (Processing, Accepted or Rejected) and \<open>Decided\<close>
  (Accepted or Rejected).\<close>

datatype Status = Unknown | Processing | Rejected | Accepted

text \<open>Modelled from the spec: \<^verbatim>\<open>Status.Decided()\<close> of package choices, "Accepted or
  Rejected by Consensus".\<close>

definition Decided :: "Status \<Rightarrow> bool" where
  "Decided st = (st = Accepted \<or> st = Rejected)"

text \<open>Modelled from the spec: \<^verbatim>\<open>Status.Fetched()\<close> of package choices,
  "Status in {Processing, Accepted, Rejected}".\<close>

definition Fetched :: "Status \<Rightarrow> bool" where
  "Fetched st = (st = Processing \<or> Decided st)"

text \<open>Errors are values. \<open>errMissingBlock\<close> is the error of package missing; an error
  returned by a collaborator (VM, Consensus, Validators) is \<open>errCollab n\<close>.\<close>

datatype error = errMissingBlock | errCollab nat

section \<open>Blocks and the missing-block sentinel (vms/components/missing/block.go)\<close>

text \<open>
  \<^verbatim>\<open>snowman.Block\<close> is an interface. Its implementations are the VM's blocks, whose
  identifier, parent and bytes never change, and \<^verbatim>\<open>missing.Block\<close>, which holds an
  identifier only. Status, Verify and Options of a VM block belong to the VM and are
  read through the collaborators below.
\<close>

datatype Block = VMBlock (vmID: ID) (vmParent: ID) (vmBytes: bytes) | MissingBlock (BlkID: ID)

definition missing_ID :: "ID \<Rightarrow> ID" where
  "missing_ID mb = mb"

definition missing_Height :: "ID \<Rightarrow> nat" where
  "missing_Height mb = 0"

definition missing_Accept :: "ID \<Rightarrow> error option" where
  "missing_Accept mb = Some errMissingBlock"

definition missing_Reject :: "ID \<Rightarrow> error option" where
  "missing_Reject mb = Some errMissingBlock"

definition missing_Status :: "ID \<Rightarrow> Status" where
  "missing_Status mb = Unknown"

definition missing_Parent :: "ID \<Rightarrow> ID" where
  "missing_Parent mb = 0"

definition missing_Verify :: "ID \<Rightarrow> error option" where
  "missing_Verify mb = Some errMissingBlock"

definition missing_Bytes :: "ID \<Rightarrow> bytes" where
  "missing_Bytes mb = []"

text \<open>The methods of the interface that do not depend on the VM.\<close>

fun ID :: "Block \<Rightarrow> ID" where
  "ID (VMBlock i p bs) = i"
| "ID (MissingBlock mb) = missing_ID mb"

fun Parent :: "Block \<Rightarrow> ID" where
  "Parent (VMBlock i p bs) = p"
| "Parent (MissingBlock mb) = missing_Parent mb"

fun Bytes :: "Block \<Rightarrow> bytes" where
  "Bytes (VMBlock i p bs) = bs"
| "Bytes (MissingBlock mb) = missing_Bytes mb"

section \<open>The collaborators\<close>

text \<open>
  Consensus, the VM, its blocks and the validator set are external to the engine. They
  are a parameter: a record of operations over a state \<open>'w\<close> of their own, which the
  engine threads through every call. Operations that only read return a value;
  operations that may change the collaborators return the new \<open>'w\<close> as well.
  A fallible operation returns \<open>Inl err\<close> or \<open>Inr result\<close>.
\<close>

record 'w Collab =
  cInitialize :: "ID \<Rightarrow> 'w \<Rightarrow> 'w"
  cIssued :: "'w \<Rightarrow> Block \<Rightarrow> bool"
  cAdd :: "Block \<Rightarrow> 'w \<Rightarrow> (error + bool) \<times> 'w"
  cPreference :: "'w \<Rightarrow> ID"
  cRecordPoll :: "ID list \<Rightarrow> 'w \<Rightarrow> (error + ID list \<times> ID list) \<times> 'w"
  vmParseBlock :: "'w \<Rightarrow> bytes \<Rightarrow> error + Block"
  vmGetBlock :: "'w \<Rightarrow> ID \<Rightarrow> error + Block"
  vmBuildBlock :: "'w \<Rightarrow> (error + Block) \<times> 'w"
  vmLastAccepted :: "'w \<Rightarrow> ID"
  vmSetPreference :: "ID \<Rightarrow> 'w \<Rightarrow> 'w"
  vmStatus :: "'w \<Rightarrow> Block \<Rightarrow> Status"
  vmVerify :: "Block \<Rightarrow> 'w \<Rightarrow> error option \<times> 'w"
  vmOptions :: "'w \<Rightarrow> Block \<Rightarrow> (error + Block list) option"
  vSample :: "int \<Rightarrow> 'w \<Rightarrow> (error + ShortID list) \<times> 'w"
  pFinished :: "ShortID list \<Rightarrow> ID list \<Rightarrow> bool"

text \<open>\<^verbatim>\<open>blk.Status()\<close> and \<^verbatim>\<open>blk.Verify()\<close>: the sentinel answers by itself, a VM
  block through the VM.\<close>

fun blkStatus :: "'w Collab \<Rightarrow> 'w \<Rightarrow> Block \<Rightarrow> Status" where
  "blkStatus E w (MissingBlock mb) = missing_Status mb"
| "blkStatus E w blk = vmStatus E w blk"

fun blkVerify :: "'w Collab \<Rightarrow> Block \<Rightarrow> 'w \<Rightarrow> error option \<times> 'w" where
  "blkVerify E (MissingBlock mb) w = (missing_Verify mb, w)"
| "blkVerify E blk w = vmVerify E blk w"

text \<open>The type switch \<^verbatim>\<open>blk.(type)\<close> with \<^verbatim>\<open>case OracleBlock\<close>: \<open>None\<close> when the
  block is not an oracle block, else the result of \<^verbatim>\<open>Options()\<close>. The sentinel has no
  such method.\<close>

fun blkOptions :: "'w Collab \<Rightarrow> 'w \<Rightarrow> Block \<Rightarrow> (error + Block list) option" where
  "blkOptions E w (MissingBlock mb) = None"
| "blkOptions E w blk = vmOptions E w blk"

section \<open>Engine-private containers\<close>

subsection \<open>The LRU caches\<close>

text \<open>Modelled from the spec: \<^verbatim>\<open>cache.LRU\<close> is not among the sources. "Bounded LRU
  maps ... strict LRUs by recency-of-insert/access". The entries are kept most recent
  first; \<open>Put\<close> and \<open>Get\<close> make their entry the most recent one, and a \<open>Put\<close> that
  takes the cache over its size drops the least recent entry.\<close>

record 'v LRU =
  Size :: int
  entries :: "(ID \<times> 'v) list"

definition lruPut :: "ID \<Rightarrow> 'v \<Rightarrow> 'v LRU \<Rightarrow> 'v LRU" where
  "lruPut k v c =
     (let es = (k, v) # filter (\<lambda>e. fst e \<noteq> k) (entries c)
      in c\<lparr>entries := (if Size c < int (length es) then butlast es else es)\<rparr>)"

definition lruGet :: "ID \<Rightarrow> 'v LRU \<Rightarrow> 'v option \<times> 'v LRU" where
  "lruGet k c =
     (case map_of (entries c) k of
        None \<Rightarrow> (None, c)
      | Some v \<Rightarrow> (Some v, c\<lparr>entries := (k, v) # filter (\<lambda>e. fst e \<noteq> k) (entries c)\<rparr>))"

definition lruEvict :: "ID \<Rightarrow> 'v LRU \<Rightarrow> 'v LRU" where
  "lruEvict k c = c\<lparr>entries := filter (\<lambda>e. fst e \<noteq> k) (entries c)\<rparr>"

definition lruContains :: "ID \<Rightarrow> 'v LRU \<Rightarrow> bool" where
  "lruContains k c = (map_of (entries c) k \<noteq> None)"

subsection \<open>The requests table\<close>

text \<open>Modelled from the spec: \<^verbatim>\<open>common.Requests\<close> is not among the sources. "A
  bidirectional mapping between (validator, requestID) pairs and block IDs". It is a
  list of the outstanding requests, newest first.\<close>

type_synonym Requests = "(ShortID \<times> uint32 \<times> ID) list"

definition reqAdd :: "ShortID \<Rightarrow> uint32 \<Rightarrow> ID \<Rightarrow> Requests \<Rightarrow> Requests" where
  "reqAdd vdr requestID containerID r =
     (vdr, requestID, containerID) #
       filter (\<lambda>(v, i, c). (v, i) \<noteq> (vdr, requestID) \<and> c \<noteq> containerID) r"

definition reqRemove :: "ShortID \<Rightarrow> uint32 \<Rightarrow> Requests \<Rightarrow> ID option \<times> Requests" where
  "reqRemove vdr requestID r =
     (case find (\<lambda>(v, i, c). (v, i) = (vdr, requestID)) r of
        None \<Rightarrow> (None, r)
      | Some (v, i, c) \<Rightarrow> (Some c, filter (\<lambda>(v, i, c). (v, i) \<noteq> (vdr, requestID)) r))"

definition reqRemoveAny :: "ID \<Rightarrow> Requests \<Rightarrow> Requests" where
  "reqRemoveAny containerID r = filter (\<lambda>(v, i, c). c \<noteq> containerID) r"

definition reqContains :: "ID \<Rightarrow> Requests \<Rightarrow> bool" where
  "reqContains containerID r = (\<exists>e \<in> set r. snd (snd e) = containerID)"

subsection \<open>The polls set\<close>

text \<open>Modelled from the spec: \<^verbatim>\<open>poll.Set\<close> is not among the sources. It "tracks
  in-flight pull/push queries, keyed by request ID, each carrying the bag of queried
  validators and accumulated chits". \<open>Add\<close> refuses a request id that is already
  there. A validator's answer (a vote, or \<open>None\<close> when its query failed) takes it out
  of the bag of the poll; whether the poll then concludes is the collaborators'
  \<open>pFinished\<close>, and a concluded poll leaves the set and hands out its votes.\<close>

record Poll =
  polled :: "ShortID list"
  chits :: "ID list"

type_synonym Polls = "(uint32 \<times> Poll) list"

definition pollsLen :: "Polls \<Rightarrow> int" where
  "pollsLen ps = int (length ps)"

definition pollsAdd :: "uint32 \<Rightarrow> ShortID list \<Rightarrow> Polls \<Rightarrow> bool \<times> Polls" where
  "pollsAdd requestID vdrs ps =
     (if map_of ps requestID \<noteq> None then (False, ps)
      else (True, ps @ [(requestID, \<lparr>polled = vdrs, chits = []\<rparr>)]))"

definition pollsAnswer ::
  "(ShortID list \<Rightarrow> ID list \<Rightarrow> bool) \<Rightarrow> uint32 \<Rightarrow> ShortID \<Rightarrow> ID option \<Rightarrow> Polls
     \<Rightarrow> (ID list \<times> bool) \<times> Polls" where
  "pollsAnswer fin requestID vdr vote ps =
     (case map_of ps requestID of
        None \<Rightarrow> (([], False), ps)
      | Some p \<Rightarrow>
          (let n = length (filter (\<lambda>v. v = vdr) (polled p));
               p' = \<lparr>polled = filter (\<lambda>v. v \<noteq> vdr) (polled p),
                     chits = (case vote of None \<Rightarrow> chits p
                              | Some i \<Rightarrow> chits p @ replicate n i)\<rparr>
           in if fin (polled p') (chits p')
              then ((chits p', True), filter (\<lambda>e. fst e \<noteq> requestID) ps)
              else (([], False), map (\<lambda>e. if fst e = requestID then (requestID, p') else e) ps)))"

subsection \<open>The Blocker's continuations\<close>

text \<open>Modelled from the spec: \<^verbatim>\<open>events.Blocker\<close> and the issuer, convincer and voter
  are not among the sources. A continuation waits on a set of block ids; the Blocker
  keeps the waiting ones in registration order, each with the ids it still waits
  for.\<close>

datatype Continuation =
    Issuer Block
  | Convincer ShortID uint32
  | Voter ShortID uint32 "ID option"

type_synonym Blocker = "(ID set \<times> Continuation) list"

section \<open>What the engine does to the outside\<close>

text \<open>Every call that leaves the engine is recorded, oldest first: the messages handed
  to the Sender, and the calls of \<^verbatim>\<open>Verify\<close>, \<^verbatim>\<open>Consensus.Add\<close>,
  \<^verbatim>\<open>VM.SetPreference\<close> and of the Blocker. A call of \<^verbatim>\<open>Consensus.Add\<close> is recorded
  with the state the collaborators were in when it was made. The record is not a field
  of the source; it is what the claims about calls and messages are stated on.\<close>

datatype 'w Event =
    SenderGet ShortID uint32 ID
  | SenderPut ShortID uint32 ID bytes
  | SenderMultiPut ShortID uint32 "bytes list"
  | SenderPullQuery "ShortID set" uint32 ID
  | SenderPushQuery "ShortID set" uint32 ID bytes
  | SenderChits ShortID uint32 "ID set"
  | SenderGossip ID bytes
  | BlockVerify Block
  | ConsensusAdd Block "'w"
  | VMSetPreference ID
  | BlockerRegister Continuation "ID set"
  | BlockerFulfill ID
  | BlockerAbandon ID

section \<open>The engine state (struct Transitive)\<close>

record 'w Transitive =
  bootstrapped :: bool
  RequestID :: uint32
  K :: int
  ConcurrentRepolls :: int
  polls :: Polls
  blkReqs :: Requests
  pending :: "ID set"
  blocked :: Blocker
  errs :: "error option"
  processing :: "ID \<rightharpoonup> Block"
  decidedCache :: "unit LRU"
  droppedCache :: "Block LRU"
  world :: "'w"
  calls :: "'w Event list"

definition emit :: "'w Event \<Rightarrow> 'w Transitive \<Rightarrow> 'w Transitive" where
  "emit e t = t\<lparr>calls := calls t @ [e]\<rparr>"

text \<open>The calls without the recorded states of the collaborators.\<close>

fun forget :: "'w Event \<Rightarrow> unit Event" where
  "forget (SenderGet vdr requestID blkID) = SenderGet vdr requestID blkID"
| "forget (SenderPut vdr requestID blkID bs) = SenderPut vdr requestID blkID bs"
| "forget (SenderMultiPut vdr requestID cs) = SenderMultiPut vdr requestID cs"
| "forget (SenderPullQuery vdrs requestID blkID) = SenderPullQuery vdrs requestID blkID"
| "forget (SenderPushQuery vdrs requestID blkID bs) = SenderPushQuery vdrs requestID blkID bs"
| "forget (SenderChits vdr requestID vs) = SenderChits vdr requestID vs"
| "forget (SenderGossip blkID bs) = SenderGossip blkID bs"
| "forget (BlockVerify blk) = BlockVerify blk"
| "forget (ConsensusAdd blk w) = ConsensusAdd blk ()"
| "forget (VMSetPreference blkID) = VMSetPreference blkID"
| "forget (BlockerRegister c deps) = BlockerRegister c deps"
| "forget (BlockerFulfill blkID) = BlockerFulfill blkID"
| "forget (BlockerAbandon blkID) = BlockerAbandon blkID"

text \<open>\<^verbatim>\<open>wrappers.Errs.Add\<close> keeps the first error.\<close>

definition errsAdd :: "error option \<Rightarrow> 'w Transitive \<Rightarrow> 'w Transitive" where
  "errsAdd err t = (if errs t = None then t\<lparr>errs := err\<rparr> else t)"

text \<open>\<^verbatim>\<open>IsBootstrapped\<close> (lines 744-746).\<close>

definition IsBootstrapped :: "'w Transitive \<Rightarrow> bool" where
  "IsBootstrapped t = bootstrapped t"

text \<open>\<^verbatim>\<open>GetBlock\<close> (lines 749-760): the processing map, then the dropped cache, then
  the VM.\<close>

definition GetBlock :: "'w Collab \<Rightarrow> ID \<Rightarrow> 'w Transitive \<Rightarrow> (error + Block) \<times> 'w Transitive" where
  "GetBlock E i t =
     (case processing t i of
        Some block \<Rightarrow> (Inr block, t)
      | None \<Rightarrow>
          (case lruGet i (droppedCache t) of
             (Some block, c) \<Rightarrow> (Inr block, t\<lparr>droppedCache := c\<rparr>)
           | (None, c) \<Rightarrow> (vmGetBlock E (world t) i, t\<lparr>droppedCache := c\<rparr>)))"

section \<open>Handlers that answer requests for blocks\<close>

text \<open>Constants of other packages that the handlers use and the sources do not define:
  \<^verbatim>\<open>common.MaxContainersPerMultiPut\<close>, \<^verbatim>\<open>wrappers.IntLen\<close> and
  \<^verbatim>\<open>network.DefaultMaxMessageSize\<close>. They are parameters.\<close>

record Limits =
  MaxContainersPerMultiPut :: nat
  IntLen :: nat
  DefaultMaxMessageSize :: nat

text \<open>\<^verbatim>\<open>maxContainersLen = int(4 * network.DefaultMaxMessageSize / 5)\<close> (line 29).\<close>

definition maxContainersLen :: "Limits \<Rightarrow> nat" where
  "maxContainersLen L = 4 * DefaultMaxMessageSize L div 5"

text \<open>\<^verbatim>\<open>Gossip\<close> (lines 149-159).\<close>

definition Gossip :: "'w Collab \<Rightarrow> 'w Transitive \<Rightarrow> error option \<times> 'w Transitive" where
  "Gossip E t =
     (let blkID = vmLastAccepted E (world t) in
      case GetBlock E blkID t of
        (Inl err, t1) \<Rightarrow> (None, t1)
      | (Inr blk, t1) \<Rightarrow> (None, emit (SenderGossip blkID (Bytes blk)) t1))"

text \<open>\<^verbatim>\<open>Get\<close> (lines 168-181).\<close>

definition Get :: "'w Collab \<Rightarrow> ShortID \<Rightarrow> uint32 \<Rightarrow> ID \<Rightarrow> 'w Transitive \<Rightarrow> error option \<times> 'w Transitive" where
  "Get E vdr requestID blkID t =
     (case GetBlock E blkID t of
        (Inl err, t1) \<Rightarrow> (None, t1)
      | (Inr blk, t1) \<Rightarrow> (None, emit (SenderPut vdr requestID blkID (Bytes blk)) t1))"

text \<open>
  \<^verbatim>\<open>GetAncestors\<close> (lines 184-215). The loop's clock test
  \<^verbatim>\<open>time.Since(startTime) < common.MaxTimeFetchingAncestors\<close> is the parameter
  \<open>inTime\<close>, asked with the loop counter. Inside the loop body the source declares
  \<^verbatim>\<open>blk, err := t.GetBlock(blkID)\<close>, new variables of the body, so
  \<^verbatim>\<open>blkID = blk.Parent()\<close> reads the block the handler was called for in every round:
  \<open>parentID\<close> below is fixed.
\<close>

function GetAncestors_loop ::
  "'w Collab \<Rightarrow> Limits \<Rightarrow> (nat \<Rightarrow> bool) \<Rightarrow> ID \<Rightarrow> nat \<Rightarrow> bytes list \<Rightarrow> nat \<Rightarrow> 'w Transitive
     \<Rightarrow> (bytes list \<times> nat) \<times> 'w Transitive" where
  "GetAncestors_loop E L inTime parentID numFetched ancestorsBytes ancestorsBytesLen t =
     (if numFetched < MaxContainersPerMultiPut L \<and> inTime numFetched then
        (case GetBlock E parentID t of
           (Inl err, t1) \<Rightarrow> ((ancestorsBytes, ancestorsBytesLen), t1)
         | (Inr blk, t1) \<Rightarrow>
             (let blkBytes = Bytes blk;
                  newLen = IntLen L + ancestorsBytesLen + length blkBytes
              in if newLen < maxContainersLen L
                 then GetAncestors_loop E L inTime parentID (numFetched + 1)
                        (ancestorsBytes @ [blkBytes]) newLen t1
                 else ((ancestorsBytes, ancestorsBytesLen), t1)))
      else ((ancestorsBytes, ancestorsBytesLen), t))"
  by pat_completeness auto
termination
  by (relation "measure (\<lambda>(E, L, inTime, parentID, numFetched, rest).
                  MaxContainersPerMultiPut L - numFetched)") auto

definition GetAncestors ::
  "'w Collab \<Rightarrow> Limits \<Rightarrow> (nat \<Rightarrow> bool) \<Rightarrow> ShortID \<Rightarrow> uint32 \<Rightarrow> ID \<Rightarrow> 'w Transitive
     \<Rightarrow> error option \<times> 'w Transitive" where
  "GetAncestors E L inTime vdr requestID blkID t =
     (case GetBlock E blkID t of
        (Inl err, t1) \<Rightarrow> (None, t1)
      | (Inr blk, t1) \<Rightarrow>
          (case GetAncestors_loop E L inTime (Parent blk) 1 [Bytes blk]
                  (length (Bytes blk) + IntLen L) t1 of
             ((ancestorsBytes, ancestorsBytesLen), t2) \<Rightarrow>
               (None, emit (SenderMultiPut vdr requestID ancestorsBytes) t2)))"

section \<open>Polling\<close>

text \<open>\<^verbatim>\<open>sendRequest\<close> (lines 600-613).\<close>

definition sendRequest :: "ShortID \<Rightarrow> ID \<Rightarrow> 'w Transitive \<Rightarrow> 'w Transitive" where
  "sendRequest vdr blkID t =
     (if reqContains blkID (blkReqs t) then t
      else
        (let t1 = t\<lparr>RequestID := RequestID t + 1\<rparr>;
             t2 = t1\<lparr>blkReqs := reqAdd vdr (RequestID t1) blkID (blkReqs t1)\<rparr>
         in emit (SenderGet vdr (RequestID t2) blkID) t2))"

text \<open>\<^verbatim>\<open>pullSample\<close> (lines 616-634). When sampling fails the bag is empty, the request
  id is still consumed and no poll is added.\<close>

definition pullSample :: "'w Collab \<Rightarrow> ID \<Rightarrow> 'w Transitive \<Rightarrow> 'w Transitive" where
  "pullSample E blkID t =
     (case vSample E (K t) (world t) of
        (r, w) \<Rightarrow>
          (let t1 = t\<lparr>world := w, RequestID := RequestID t + 1\<rparr> in
           case r of
             Inl err \<Rightarrow> t1
           | Inr vdrs \<Rightarrow>
               (case pollsAdd (RequestID t1) vdrs (polls t1) of
                  (True, ps) \<Rightarrow> emit (SenderPullQuery (set vdrs) (RequestID t1) blkID) (t1\<lparr>polls := ps\<rparr>)
                | (False, ps) \<Rightarrow> t1\<lparr>polls := ps\<rparr>)))"

text \<open>\<^verbatim>\<open>pushSample\<close> (lines 637-653).\<close>

definition pushSample :: "'w Collab \<Rightarrow> Block \<Rightarrow> 'w Transitive \<Rightarrow> 'w Transitive" where
  "pushSample E blk t =
     (case vSample E (K t) (world t) of
        (r, w) \<Rightarrow>
          (let t1 = t\<lparr>world := w, RequestID := RequestID t + 1\<rparr> in
           case r of
             Inl err \<Rightarrow> t1
           | Inr vdrs \<Rightarrow>
               (case pollsAdd (RequestID t1) vdrs (polls t1) of
                  (True, ps) \<Rightarrow>
                    emit (SenderPushQuery (set vdrs) (RequestID t1) (ID blk) (Bytes blk)) (t1\<lparr>polls := ps\<rparr>)
                | (False, ps) \<Rightarrow> t1\<lparr>polls := ps\<rparr>)))"

lemma ConcurrentRepolls_pullSample [simp]:
  "ConcurrentRepolls (pullSample E blkID t) = ConcurrentRepolls t"
  by (simp add: pullSample_def emit_def Let_def split: prod.splits sum.splits bool.splits)

text \<open>\<^verbatim>\<open>repoll\<close> (lines 460-468): the counter starts at \<^verbatim>\<open>polls.Len()\<close> and is
  incremented after every \<^verbatim>\<open>pullSample\<close>, whether or not that added a poll.\<close>

function repoll_loop :: "'w Collab \<Rightarrow> ID \<Rightarrow> int \<Rightarrow> 'w Transitive \<Rightarrow> 'w Transitive" where
  "repoll_loop E prefID i t =
     (if i < ConcurrentRepolls t then repoll_loop E prefID (i + 1) (pullSample E prefID t) else t)"
  by pat_completeness auto
termination
  by (relation "measure (\<lambda>(E, prefID, i, t). nat (ConcurrentRepolls t - i))") auto

definition repoll :: "'w Collab \<Rightarrow> 'w Transitive \<Rightarrow> 'w Transitive" where
  "repoll E t = repoll_loop E (cPreference E (world t)) (pollsLen (polls t)) t"

section \<open>The Blocker\<close>

text \<open>Modelled from the spec: \<^verbatim>\<open>Blocker.Abandon\<close>. "Remove every continuation attached
  to id without running it; also propagate by calling Abandon on every block ID that
  those continuations were themselves awaiting to satisfy": a cancelled Issuer takes
  its block out of \<open>pending\<close> and abandons the block's id in turn; a cancelled
  Convincer or Voter is dropped. The ids still to abandon are a work list, the
  cancelled issuers' blocks first.\<close>

definition attached :: "ID \<Rightarrow> ID set \<times> Continuation \<Rightarrow> bool" where
  "attached i e = (i \<in> fst e)"

fun issuerBlocks :: "(ID set \<times> Continuation) list \<Rightarrow> Block list" where
  "issuerBlocks [] = []"
| "issuerBlocks ((deps, Issuer blk) # es) = blk # issuerBlocks es"
| "issuerBlocks (e # es) = issuerBlocks es"

function Abandon_loop :: "ID list \<Rightarrow> 'w Transitive \<Rightarrow> 'w Transitive" where
  "Abandon_loop [] t = t"
| "Abandon_loop (i # rest) t =
     (let blocking = filter (attached i) (blocked t);
          t1 = (emit (BlockerAbandon i) t)\<lparr>blocked := filter (\<lambda>e. \<not> attached i e) (blocked t)\<rparr>;
          t2 = t1\<lparr>pending := pending t1 - set (map ID (issuerBlocks blocking))\<rparr>
      in Abandon_loop (map ID (issuerBlocks blocking) @ rest) t2)"
  by pat_completeness auto
termination
proof (relation "measures [\<lambda>(ids, t). length (blocked t), \<lambda>(ids, t). length ids]", goal_cases)
  case 1
  show ?case by simp
next
  case (2 i rest t blocking t1 t2)
  show ?case
  proof (cases "filter (attached i) (blocked t) = []")
    case True
    then have "filter (\<lambda>e. \<not> attached i e) (blocked t) = blocked t"
      by (simp add: filter_empty_conv)
    with 2 True show ?thesis
      by (simp add: emit_def)
  next
    case False
    then obtain e where "e \<in> set (blocked t)" "attached i e"
      by (auto simp: filter_empty_conv)
    then have "length (filter (\<lambda>e. \<not> attached i e) (blocked t)) < length (blocked t)"
      by (intro length_filter_less) auto
    with 2 show ?thesis
      by (simp add: emit_def)
  qed
qed

definition Abandon :: "ID \<Rightarrow> 'w Transitive \<Rightarrow> 'w Transitive" where
  "Abandon i t = Abandon_loop [i] t"

section \<open>Delivery to consensus\<close>

text \<open>What \<^verbatim>\<open>deliver\<close> does to the caches and the processing map when Consensus
  rejects a block at once (lines 680-683 for the delivered block, 705-708 for an
  option). The key evicted from the dropped cache is an argument of its own: the
  source passes \<^verbatim>\<open>blkID\<close> in both places, and inside the loop over the options that
  variable still is the delivered oracle block's id.\<close>

definition rejectedNow :: "ID \<Rightarrow> ID \<Rightarrow> 'w Transitive \<Rightarrow> 'w Transitive" where
  "rejectedNow decidedID evictedID t =
     t\<lparr>decidedCache := lruPut decidedID () (decidedCache t),
       droppedCache := lruEvict evictedID (droppedCache t),
       processing := (processing t)(decidedID := None)\<rparr>"

text \<open>The loop over the options of an oracle block (lines 697-712). It returns the
  error of \<^verbatim>\<open>Consensus.Add\<close>, or the lists \<open>added\<close> and \<open>dropped\<close>.\<close>

fun deliver_options ::
  "'w Collab \<Rightarrow> ID \<Rightarrow> Block list \<Rightarrow> Block list \<Rightarrow> Block list \<Rightarrow> 'w Transitive
     \<Rightarrow> (error + Block list \<times> Block list) \<times> 'w Transitive" where
  "deliver_options E blkID [] added dropped t = (Inr (added, dropped), t)"
| "deliver_options E blkID (blk # options) added dropped t =
     (case blkVerify E blk (world t) of
        (Some err, w) \<Rightarrow>
          deliver_options E blkID options added (dropped @ [blk])
            (emit (BlockVerify blk) (t\<lparr>world := w\<rparr>))
      | (None, w) \<Rightarrow>
          (let t1 = emit (BlockVerify blk) (t\<lparr>world := w\<rparr>) in
           case cAdd E blk (world t1) of
             (Inl err, w1) \<Rightarrow> (Inl err, emit (ConsensusAdd blk (world t1)) (t1\<lparr>world := w1\<rparr>))
           | (Inr rejected, w1) \<Rightarrow>
               (let t2 = emit (ConsensusAdd blk (world t1)) (t1\<lparr>world := w1\<rparr>);
                    t3 = (if rejected then rejectedNow (ID blk) blkID t2 else t2)
                in deliver_options E blkID options (added @ [blk]) dropped t3)))"

text \<open>The last loop of \<^verbatim>\<open>deliver\<close> (lines 728-732), over the options that failed
  verification.\<close>

fun deliver_dropped :: "Block list \<Rightarrow> 'w Transitive \<Rightarrow> 'w Transitive" where
  "deliver_dropped [] t = t"
| "deliver_dropped (blk # dropped) t =
     deliver_dropped dropped (Abandon (ID blk) (t\<lparr>pending := pending t - {ID blk}\<rparr>))"

text \<open>\<^verbatim>\<open>VM.SetPreference(Consensus.Preference())\<close> (line 715 of \<^verbatim>\<open>deliver\<close>).\<close>

definition setPreference :: "'w Collab \<Rightarrow> 'w Transitive \<Rightarrow> 'w Transitive" where
  "setPreference E t =
     (let pref = cPreference E (world t)
      in emit (VMSetPreference pref) (t\<lparr>world := vmSetPreference E pref (world t)\<rparr>))"

text \<open>Modelled from the spec: what a Voter does when it runs. It hands the answer to the
  poll set; when the poll concludes, the votes go to \<^verbatim>\<open>Consensus.RecordPoll\<close>, every
  block that this accepts or rejects enters the decided cache and leaves the dropped
  cache and the processing map, the VM's preference is updated and the engine
  repolls. An error of RecordPoll trips \<open>errs\<close>.\<close>

definition decidedNow :: "ID \<Rightarrow> 'w Transitive \<Rightarrow> 'w Transitive" where
  "decidedNow i t = rejectedNow i i t"

definition decide :: "ID list \<Rightarrow> 'w Transitive \<Rightarrow> 'w Transitive" where
  "decide ids t = fold decidedNow ids t"

definition runVoter :: "'w Collab \<Rightarrow> ShortID \<Rightarrow> uint32 \<Rightarrow> ID option \<Rightarrow> 'w Transitive \<Rightarrow> 'w Transitive" where
  "runVoter E vdr requestID response t =
     (case pollsAnswer (pFinished E) requestID vdr response (polls t) of
        ((results, finished), ps) \<Rightarrow>
          (let t1 = t\<lparr>polls := ps\<rparr> in
           if \<not> finished then t1
           else
             (case cRecordPoll E results (world t1) of
                (Inl err, w) \<Rightarrow> errsAdd (Some err) (t1\<lparr>world := w\<rparr>)
              | (Inr (accepted, rejected), w) \<Rightarrow>
                  repoll E (setPreference E (decide (accepted @ rejected) (t1\<lparr>world := w\<rparr>))))))"

text \<open>Modelled from the spec: what a Convincer does when it runs, "sends chits reply
  for a received pull/push query": the chit is the current preference.\<close>

definition runConvincer :: "'w Collab \<Rightarrow> ShortID \<Rightarrow> uint32 \<Rightarrow> 'w Transitive \<Rightarrow> 'w Transitive" where
  "runConvincer E vdr requestID t = emit (SenderChits vdr requestID {cPreference E (world t)}) t"

text \<open>
  The first part of \<^verbatim>\<open>deliver\<close> (lines 661-713), for a block that is not issued yet:
  verification, \<^verbatim>\<open>Consensus.Add\<close> and the options of an oracle block, "before marking
  anything as fulfilled". The result is \<open>Inl\<close> with what \<^verbatim>\<open>deliver\<close> returns where it
  returns early, or \<open>Inr\<close> with the lists \<open>added\<close> and \<open>dropped\<close> where it goes on.
\<close>

definition deliver_add ::
  "'w Collab \<Rightarrow> Block \<Rightarrow> 'w Transitive
     \<Rightarrow> (error option \<times> 'w Transitive) + (Block list \<times> Block list) \<times> 'w Transitive" where
  "deliver_add E blk t =
     (let blkID = ID blk;
          t1 = t\<lparr>pending := pending t - {blkID}\<rparr>
      in case blkVerify E blk (world t1) of
        (Some err, w) \<Rightarrow>
          (let t2 = emit (BlockVerify blk) (t1\<lparr>world := w\<rparr>);
               t3 = t2\<lparr>processing := (processing t2)(blkID := None)\<rparr>;
               t4 = t3\<lparr>droppedCache := lruPut blkID blk (droppedCache t3)\<rparr>;
               t5 = Abandon blkID t4
           in Inl (errs t5, t5))
      | (None, w) \<Rightarrow>
          (let t2 = emit (BlockVerify blk) (t1\<lparr>world := w\<rparr>) in
           case cAdd E blk (world t2) of
             (Inl err, w2) \<Rightarrow>
               Inl (Some err, emit (ConsensusAdd blk (world t2)) (t2\<lparr>world := w2\<rparr>))
           | (Inr rejected, w2) \<Rightarrow>
               (let t3 = emit (ConsensusAdd blk (world t2)) (t2\<lparr>world := w2\<rparr>);
                    t4 = (if rejected then rejectedNow blkID blkID t3 else t3)
                in case blkOptions E (world t4) blk of
                  Some (Inl err) \<Rightarrow> Inl (Some err, t4)
                | opts \<Rightarrow>
                    (case deliver_options E blkID
                            (case opts of Some (Inr options) \<Rightarrow> options | _ \<Rightarrow> []) [] [] t4 of
                       (Inl err, t5) \<Rightarrow> Inl (Some err, t5)
                     | (Inr both, t5) \<Rightarrow> Inr (both, t5)))))"

text \<open>
  \<^verbatim>\<open>deliver\<close> (lines 656-741) and, modelled from the spec, \<^verbatim>\<open>Blocker.Fulfill\<close> and the
  running of continuations. They call each other: fulfilling a block's id runs the
  Issuers that waited for it, and an Issuer delivers its block. The first argument is
  fuel: every \<open>deliver\<close> uses one unit, and \<open>None\<close> means that the fuel ran out.

  A continuation that runs while \<open>errs\<close> is tripped does nothing ("further calls observe
  this and short-circuit"); an Issuer adds the error of its \<open>deliver\<close> to \<open>errs\<close>.
  \<open>Fulfill\<close> takes the id out of every continuation that waits for it, takes the
  continuations that wait for nothing else out of the Blocker ("snapshotting the ready
  list before executing") and runs them in registration order.
\<close>

definition ready :: "ID \<Rightarrow> ID set \<times> Continuation \<Rightarrow> bool" where
  "ready i e = (attached i e \<and> fst e - {i} = {})"

function (sequential) deliver ::
    "nat \<Rightarrow> 'w Collab \<Rightarrow> Block \<Rightarrow> 'w Transitive \<Rightarrow> (error option \<times> 'w Transitive) option"
  and Fulfill :: "nat \<Rightarrow> 'w Collab \<Rightarrow> ID \<Rightarrow> 'w Transitive \<Rightarrow> 'w Transitive option"
  and runAll :: "nat \<Rightarrow> 'w Collab \<Rightarrow> Continuation list \<Rightarrow> 'w Transitive \<Rightarrow> 'w Transitive option"
  and deliver_added :: "nat \<Rightarrow> 'w Collab \<Rightarrow> Block list \<Rightarrow> 'w Transitive \<Rightarrow> 'w Transitive option"
where
  "deliver 0 E blk t = None"
| "deliver (Suc n) E blk t =
     (if cIssued E (world t) blk then Some (None, t)
      else
        (case deliver_add E blk t of
           Inl early \<Rightarrow> Some early
         | Inr ((added, dropped), t5) \<Rightarrow>
             (case Fulfill n E (ID blk) (pushSample E blk (setPreference E t5)) of
                None \<Rightarrow> None
              | Some t8 \<Rightarrow>
                  (case deliver_added n E added t8 of
                     None \<Rightarrow> None
                   | Some t9 \<Rightarrow>
                       (let t10 = deliver_dropped dropped t9;
                            t11 = repoll E t10
                        in Some (errs t11, t11))))))"
| "Fulfill n E i t =
     runAll n E (map snd (filter (ready i) (blocked t)))
       ((emit (BlockerFulfill i) t)
          \<lparr>blocked := map (\<lambda>e. (fst e - {i}, snd e)) (filter (\<lambda>e. \<not> ready i e) (blocked t))\<rparr>)"
| "runAll n E [] t = Some t"
| "runAll n E (Issuer blk # cs) t =
     (if errs t \<noteq> None then runAll n E cs t
      else
        (case deliver n E blk t of
           None \<Rightarrow> None
         | Some (err, t1) \<Rightarrow> runAll n E cs (errsAdd err t1)))"
| "runAll n E (Convincer vdr requestID # cs) t =
     (if errs t \<noteq> None then runAll n E cs t
      else runAll n E cs (runConvincer E vdr requestID t))"
| "runAll n E (Voter vdr requestID response # cs) t =
     (if errs t \<noteq> None then runAll n E cs t
      else runAll n E cs (runVoter E vdr requestID response t))"
| "deliver_added n E [] t = Some t"
| "deliver_added n E (blk # added) t =
     (let t1 = pushSample E blk t;
          t2 = t1\<lparr>pending := pending t1 - {ID blk}\<rparr>
      in case Fulfill n E (ID blk) t2 of
        None \<Rightarrow> None
      | Some t3 \<Rightarrow> deliver_added n E added t3)"
  by pat_completeness auto
termination
  by (relation "measures
        [\<lambda>x. case x of
               Inl (Inl (n, E, blk, t)) \<Rightarrow> n
             | Inl (Inr (n, E, i, t)) \<Rightarrow> n
             | Inr (Inl (n, E, cs, t)) \<Rightarrow> n
             | Inr (Inr (n, E, bs, t)) \<Rightarrow> n,
         \<lambda>x. case x of
               Inl (Inl (n, E, blk, t)) \<Rightarrow> 0
             | Inl (Inr (n, E, i, t)) \<Rightarrow> 2
             | Inr (Inl (n, E, cs, t)) \<Rightarrow> 1
             | Inr (Inr (n, E, bs, t)) \<Rightarrow> 3,
         \<lambda>x. case x of
               Inl (Inl (n, E, blk, t)) \<Rightarrow> 0
             | Inl (Inr (n, E, i, t)) \<Rightarrow> 0
             | Inr (Inl (n, E, cs, t)) \<Rightarrow> length cs
             | Inr (Inr (n, E, bs, t)) \<Rightarrow> length bs]") auto

text \<open>Modelled from the spec: \<^verbatim>\<open>Blocker.Register\<close>. "If c.deps is empty, run c
  immediately; else attach c under each ID in c.deps."\<close>

definition Register ::
  "nat \<Rightarrow> 'w Collab \<Rightarrow> Continuation \<Rightarrow> ID set \<Rightarrow> 'w Transitive \<Rightarrow> 'w Transitive option" where
  "Register n E c deps t =
     (let t1 = emit (BlockerRegister c deps) t in
      if deps = {} then runAll n E [c] t1
      else Some (t1\<lparr>blocked := blocked t1 @ [(deps, c)]\<rparr>))"

section \<open>The issuance resolver\<close>

text \<open>\<^verbatim>\<open>issue\<close> (lines 563-597). The result is \<^verbatim>\<open>t.errs.Err\<close> and the new state.\<close>

definition issue ::
  "nat \<Rightarrow> 'w Collab \<Rightarrow> Block \<Rightarrow> 'w Transitive \<Rightarrow> (error option \<times> 'w Transitive) option" where
  "issue n E blk t =
     (let blkID = ID blk;
          t1 = t\<lparr>pending := insert blkID (pending t)\<rparr>;
          t2 = t1\<lparr>blkReqs := reqRemoveAny blkID (blkReqs t1)\<rparr>;
          parentID = Parent blk
      in case lruGet parentID (decidedCache t2) of
        (found, c) \<Rightarrow>
          (case (if found \<noteq> None then (True, t2\<lparr>decidedCache := c\<rparr>)
                 else (case GetBlock E parentID (t2\<lparr>decidedCache := c\<rparr>) of
                         (Inr parent, t3) \<Rightarrow> (cIssued E (world t3) parent, t3)
                       | (Inl err, t3) \<Rightarrow> (False, t3))) of
             (parentIssued, t4) \<Rightarrow>
               (case Register n E (Issuer blk) (if \<not> parentIssued then {parentID} else {}) t4 of
                  None \<Rightarrow> None
                | Some t5 \<Rightarrow> Some (errs t5, t5))))"

text \<open>\<^verbatim>\<open>issueFrom\<close> (lines 500-524). The loop walks rootward; one unit of fuel per
  round. The result is the pair the source returns, and the new state.\<close>

fun issueFrom_loop ::
  "nat \<Rightarrow> 'w Collab \<Rightarrow> ShortID \<Rightarrow> Block \<Rightarrow> ID \<Rightarrow> 'w Transitive
     \<Rightarrow> ((bool \<times> error option) \<times> 'w Transitive) option" where
  "issueFrom_loop 0 E vdr blk blkID t = None"
| "issueFrom_loop (Suc n) E vdr blk blkID t =
     (if \<not> cIssued E (world t) blk \<and> blkID \<notin> pending t then
        (case issue n E blk t of
           None \<Rightarrow> None
         | Some (Some err, t1) \<Rightarrow> Some ((False, Some err), t1)
         | Some (None, t1) \<Rightarrow>
             (let parentID = Parent blk in
              case lruGet parentID (decidedCache t1) of
                (Some u, c) \<Rightarrow>
                  (let t2 = t1\<lparr>decidedCache := c\<rparr> in Some ((cIssued E (world t2) blk, None), t2))
              | (None, c) \<Rightarrow>
                  (case GetBlock E parentID (t1\<lparr>decidedCache := c\<rparr>) of
                     (Inl err, t2) \<Rightarrow> Some ((False, None), sendRequest vdr parentID t2)
                   | (Inr parent, t2) \<Rightarrow>
                       (if \<not> Fetched (blkStatus E (world t2) parent)
                        then Some ((False, None), sendRequest vdr parentID t2)
                        else issueFrom_loop n E vdr parent parentID t2))))
      else Some ((cIssued E (world t) blk, None), t))"

definition issueFrom ::
  "nat \<Rightarrow> 'w Collab \<Rightarrow> ShortID \<Rightarrow> Block \<Rightarrow> 'w Transitive
     \<Rightarrow> ((bool \<times> error option) \<times> 'w Transitive) option" where
  "issueFrom n E vdr blk t = issueFrom_loop n E vdr blk (ID blk) t"

text \<open>\<^verbatim>\<open>issueFromByID\<close> (lines 473-495).\<close>

definition issueFromByID ::
  "nat \<Rightarrow> 'w Collab \<Rightarrow> ShortID \<Rightarrow> ID \<Rightarrow> 'w Transitive
     \<Rightarrow> ((bool \<times> error option) \<times> 'w Transitive) option" where
  "issueFromByID n E vdr blkID t =
     (case lruGet blkID (decidedCache t) of
        (Some u, c) \<Rightarrow> Some ((True, None), t\<lparr>decidedCache := c\<rparr>)
      | (None, c) \<Rightarrow>
          (case GetBlock E blkID (t\<lparr>decidedCache := c\<rparr>) of
             (Inl err, t1) \<Rightarrow> Some ((False, None), sendRequest vdr blkID t1)
           | (Inr blk, t1) \<Rightarrow>
               (let status = blkStatus E (world t1) blk in
                if status = Accepted \<or> status = Rejected
                then Some ((True, None), t1\<lparr>decidedCache := lruPut blkID () (decidedCache t1)\<rparr>)
                else issueFrom n E vdr blk t1)))"

text \<open>\<^verbatim>\<open>issueWithAncestors\<close> (lines 529-560). \<open>issueWithAncestors_end\<close> is what follows
  the loop (lines 545-559).\<close>

definition issueWithAncestors_end ::
  "'w Collab \<Rightarrow> Block \<Rightarrow> ID \<Rightarrow> 'w Transitive \<Rightarrow> (bool \<times> error option) \<times> 'w Transitive" where
  "issueWithAncestors_end E blk blkID t =
     (if cIssued E (world t) blk then ((True, None), t)
      else if reqContains blkID (blkReqs t) then ((False, None), t)
      else (let t1 = Abandon blkID t in ((False, errs t1), t1)))"

fun issueWithAncestors_loop ::
  "nat \<Rightarrow> 'w Collab \<Rightarrow> Block \<Rightarrow> ID \<Rightarrow> 'w Transitive
     \<Rightarrow> ((bool \<times> error option) \<times> 'w Transitive) option" where
  "issueWithAncestors_loop 0 E blk blkID t = None"
| "issueWithAncestors_loop (Suc n) E blk blkID t =
     (if Fetched (blkStatus E (world t) blk) \<and> \<not> cIssued E (world t) blk \<and> blkID \<notin> pending t then
        (case issue n E blk t of
           None \<Rightarrow> None
         | Some (Some err, t1) \<Rightarrow> Some ((False, Some err), t1)
         | Some (None, t1) \<Rightarrow>
             (let parentID = Parent blk in
              case GetBlock E parentID t1 of
                (Inl err, t2) \<Rightarrow> issueWithAncestors_loop n E (MissingBlock parentID) parentID t2
              | (Inr parent, t2) \<Rightarrow> issueWithAncestors_loop n E parent parentID t2))
      else Some (issueWithAncestors_end E blk blkID t))"

definition issueWithAncestors ::
  "nat \<Rightarrow> 'w Collab \<Rightarrow> Block \<Rightarrow> 'w Transitive \<Rightarrow> ((bool \<times> error option) \<times> 'w Transitive) option" where
  "issueWithAncestors n E blk t = issueWithAncestors_loop n E blk (ID blk) t"

section \<open>The wire handlers\<close>

text \<open>A handler returns the error the source returns and the new state; \<open>None\<close> when the
  fuel ran out. Log calls and metrics are left out.\<close>

text \<open>Pinning a block (lines 240-242, 326-328, 438-440): the key of the processing map
  and the key evicted from the dropped cache are separate arguments, as \<^verbatim>\<open>Put\<close> uses
  \<^verbatim>\<open>blk.ID()\<close> for the first and the message's \<^verbatim>\<open>blkID\<close> for the second.\<close>

definition pin :: "ID \<Rightarrow> ID \<Rightarrow> Block \<Rightarrow> 'w Transitive \<Rightarrow> 'w Transitive" where
  "pin key evictedID blk t =
     t\<lparr>processing := (processing t)(key \<mapsto> blk),
       droppedCache := lruEvict evictedID (droppedCache t)\<rparr>"

text \<open>\<^verbatim>\<open>GetFailed\<close> (lines 255-273).\<close>

definition GetFailed :: "ShortID \<Rightarrow> uint32 \<Rightarrow> 'w Transitive \<Rightarrow> error option \<times> 'w Transitive" where
  "GetFailed vdr requestID t =
     (if \<not> IsBootstrapped t then (None, t)
      else
        (case reqRemove vdr requestID (blkReqs t) of
           (None, r) \<Rightarrow> (None, t\<lparr>blkReqs := r\<rparr>)
         | (Some blkID, r) \<Rightarrow>
             (let t1 = Abandon blkID (t\<lparr>blkReqs := r\<rparr>) in (errs t1, t1))))"

text \<open>\<^verbatim>\<open>Put\<close> (lines 218-252).\<close>

definition Put ::
  "nat \<Rightarrow> 'w Collab \<Rightarrow> ShortID \<Rightarrow> uint32 \<Rightarrow> ID \<Rightarrow> bytes \<Rightarrow> 'w Transitive
     \<Rightarrow> (error option \<times> 'w Transitive) option" where
  "Put n E vdr requestID blkID blkBytes t =
     (if \<not> IsBootstrapped t then Some (None, t)
      else
        (case vmParseBlock E (world t) blkBytes of
           Inl err \<Rightarrow> Some (GetFailed vdr requestID t)
         | Inr blk \<Rightarrow>
             (let t1 = (if blkStatus E (world t) blk = Processing then pin (ID blk) blkID blk t else t)
              in case issueFrom n E vdr blk t1 of
                None \<Rightarrow> None
              | Some ((added, err), t2) \<Rightarrow> Some (err, t2))))"

text \<open>\<^verbatim>\<open>PullQuery\<close> (lines 276-306).\<close>

definition PullQuery ::
  "nat \<Rightarrow> 'w Collab \<Rightarrow> ShortID \<Rightarrow> uint32 \<Rightarrow> ID \<Rightarrow> 'w Transitive
     \<Rightarrow> (error option \<times> 'w Transitive) option" where
  "PullQuery n E vdr requestID blkID t =
     (if \<not> IsBootstrapped t then Some (None, t)
      else
        (case issueFromByID n E vdr blkID t of
           None \<Rightarrow> None
         | Some ((added, Some err), t1) \<Rightarrow> Some (Some err, t1)
         | Some ((added, None), t1) \<Rightarrow>
             (case Register n E (Convincer vdr requestID) (if \<not> added then {blkID} else {}) t1 of
                None \<Rightarrow> None
              | Some t2 \<Rightarrow> Some (errs t2, t2))))"

text \<open>\<^verbatim>\<open>PushQuery\<close> (lines 309-342).\<close>

definition PushQuery ::
  "nat \<Rightarrow> 'w Collab \<Rightarrow> ShortID \<Rightarrow> uint32 \<Rightarrow> ID \<Rightarrow> bytes \<Rightarrow> 'w Transitive
     \<Rightarrow> (error option \<times> 'w Transitive) option" where
  "PushQuery n E vdr requestID blkID blkBytes t =
     (if \<not> IsBootstrapped t then Some (None, t)
      else
        (case vmParseBlock E (world t) blkBytes of
           Inl err \<Rightarrow> Some (None, t)
         | Inr blk \<Rightarrow>
             (if ID blk \<noteq> blkID then Some (None, t)
              else
                (let t1 = (if blkStatus E (world t) blk = Processing then pin blkID blkID blk t else t)
                 in case issueFrom n E vdr blk t1 of
                   None \<Rightarrow> None
                 | Some ((added, Some err), t2) \<Rightarrow> Some (Some err, t2)
                 | Some ((added, None), t2) \<Rightarrow> PullQuery n E vdr requestID blkID t2))))"

text \<open>\<^verbatim>\<open>QueryFailed\<close> (lines 387-400).\<close>

definition QueryFailed ::
  "nat \<Rightarrow> 'w Collab \<Rightarrow> ShortID \<Rightarrow> uint32 \<Rightarrow> 'w Transitive \<Rightarrow> (error option \<times> 'w Transitive) option" where
  "QueryFailed n E vdr requestID t =
     (if \<not> IsBootstrapped t then Some (None, t)
      else
        (case Register n E (Voter vdr requestID None) {} t of
           None \<Rightarrow> None
         | Some t1 \<Rightarrow> Some (errs t1, t1)))"

text \<open>\<^verbatim>\<open>Chits\<close> (lines 345-384). \<^verbatim>\<open>votes\<close> is an \<^verbatim>\<open>ids.Set\<close>; \<^verbatim>\<open>votes.List()[0]\<close> of a
  set of one element is that element.\<close>

definition Chits ::
  "nat \<Rightarrow> 'w Collab \<Rightarrow> ShortID \<Rightarrow> uint32 \<Rightarrow> ID set \<Rightarrow> 'w Transitive
     \<Rightarrow> (error option \<times> 'w Transitive) option" where
  "Chits n E vdr requestID votes t =
     (if \<not> IsBootstrapped t then Some (None, t)
      else if card votes \<noteq> 1 then QueryFailed n E vdr requestID t
      else
        (let blkID = the_elem votes in
         case issueFromByID n E vdr blkID t of
           None \<Rightarrow> None
         | Some ((added, Some err), t1) \<Rightarrow> Some (Some err, t1)
         | Some ((added, None), t1) \<Rightarrow>
             (case Register n E (Voter vdr requestID (Some blkID)) (if \<not> added then {blkID} else {}) t1 of
                None \<Rightarrow> None
              | Some t2 \<Rightarrow> Some (errs t2, t2))))"

text \<open>\<^verbatim>\<open>Notify\<close> (lines 403-456). \<^verbatim>\<open>common.Message\<close> has the value \<^verbatim>\<open>PendingTxs\<close>; any
  other value is \<open>OtherMessage\<close>.\<close>

datatype Message = PendingTxs | OtherMessage nat

definition Notify ::
  "nat \<Rightarrow> 'w Collab \<Rightarrow> Message \<Rightarrow> 'w Transitive \<Rightarrow> (error option \<times> 'w Transitive) option" where
  "Notify n E msg t =
     (if \<not> IsBootstrapped t then Some (None, t)
      else
        (case msg of
           PendingTxs \<Rightarrow>
             (case vmBuildBlock E (world t) of
                (Inl err, w) \<Rightarrow> Some (None, t\<lparr>world := w\<rparr>)
              | (Inr blk, w) \<Rightarrow>
                  (let t1 = t\<lparr>world := w\<rparr>;
                       blkID = ID blk
                   in if blkStatus E (world t1) blk \<noteq> Processing then Some (None, t1)
                      else if blkID \<in> pending t1 \<or> cIssued E (world t1) blk then Some (None, t1)
                      else
                        (case issueWithAncestors n E blk (pin blkID blkID blk t1) of
                           None \<Rightarrow> None
                         | Some ((added, Some err), t2) \<Rightarrow> Some (Some err, t2)
                         | Some ((added, None), t2) \<Rightarrow> Some (None, t2))))
         | OtherMessage m \<Rightarrow> Some (None, t)))"

section \<open>Start-up\<close>

text \<open>\<^verbatim>\<open>Initialize\<close> (lines 82-108): the engine's own fields. The parameters \<^verbatim>\<open>K\<close> and
  \<^verbatim>\<open>ConcurrentRepolls\<close> come from the configuration; the collaborators start in
  \<open>w\<close>.\<close>

definition decidedCacheSize :: int where
  "decidedCacheSize = 5000"

definition droppedCacheSize :: int where
  "droppedCacheSize = 1000"

definition Initialize :: "int \<Rightarrow> int \<Rightarrow> 'w \<Rightarrow> 'w Transitive" where
  "Initialize k concurrentRepolls w =
     \<lparr>bootstrapped = False, RequestID = 0, K = k, ConcurrentRepolls = concurrentRepolls,
      polls = [], blkReqs = [], pending = {}, blocked = [], errs = None,
      processing = Map.empty,
      decidedCache = \<lparr>Size = decidedCacheSize, entries = []\<rparr>,
      droppedCache = \<lparr>Size = droppedCacheSize, entries = []\<rparr>,
      world = w, calls = []\<rparr>"

text \<open>\<^verbatim>\<open>finishBootstrapping\<close> (lines 112-146). The loop over the options of an oracle
  block stops at the first error of \<^verbatim>\<open>deliver\<close>.\<close>

fun deliverAll ::
  "nat \<Rightarrow> 'w Collab \<Rightarrow> Block list \<Rightarrow> 'w Transitive \<Rightarrow> (error option \<times> 'w Transitive) option" where
  "deliverAll n E [] t = Some (None, t)"
| "deliverAll n E (blk # options) t =
     (case deliver n E blk t of
        None \<Rightarrow> None
      | Some (Some err, t1) \<Rightarrow> Some (Some err, t1)
      | Some (None, t1) \<Rightarrow> deliverAll n E options t1)"

definition finishBootstrapping ::
  "nat \<Rightarrow> 'w Collab \<Rightarrow> 'w Transitive \<Rightarrow> (error option \<times> 'w Transitive) option" where
  "finishBootstrapping n E t =
     (let lastAcceptedID = vmLastAccepted E (world t);
          t1 = t\<lparr>world := cInitialize E lastAcceptedID (world t)\<rparr>
      in case vmGetBlock E (world t1) lastAcceptedID of
        Inl err \<Rightarrow> Some (Some err, t1)
      | Inr lastAccepted \<Rightarrow>
          (case blkOptions E (world t1) lastAccepted of
             Some (Inl err) \<Rightarrow> Some (Some err, t1)
           | Some (Inr options) \<Rightarrow> deliverAll n E options t1
           | None \<Rightarrow>
               Some (None, emit (VMSetPreference lastAcceptedID)
                             (t1\<lparr>world := vmSetPreference E lastAcceptedID (world t1)\<rparr>))))"

section \<open>The engine as a state machine\<close>

text \<open>The messages the engine receives. \<^verbatim>\<open>GetAncestors\<close> carries the answers of the clock
  to its loop.\<close>

datatype Input =
    InGet ShortID uint32 ID
  | InGetAncestors ShortID uint32 ID "nat \<Rightarrow> bool"
  | InPut ShortID uint32 ID bytes
  | InGetFailed ShortID uint32
  | InPullQuery ShortID uint32 ID
  | InPushQuery ShortID uint32 ID bytes
  | InChits ShortID uint32 "ID set"
  | InQueryFailed ShortID uint32
  | InNotify Message
  | InGossip

fun handle ::
  "nat \<Rightarrow> 'w Collab \<Rightarrow> Limits \<Rightarrow> Input \<Rightarrow> 'w Transitive \<Rightarrow> (error option \<times> 'w Transitive) option" where
  "handle n E L (InGet vdr requestID blkID) t = Some (Get E vdr requestID blkID t)"
| "handle n E L (InGetAncestors vdr requestID blkID inTime) t =
     Some (GetAncestors E L inTime vdr requestID blkID t)"
| "handle n E L (InPut vdr requestID blkID blkBytes) t = Put n E vdr requestID blkID blkBytes t"
| "handle n E L (InGetFailed vdr requestID) t = Some (GetFailed vdr requestID t)"
| "handle n E L (InPullQuery vdr requestID blkID) t = PullQuery n E vdr requestID blkID t"
| "handle n E L (InPushQuery vdr requestID blkID blkBytes) t =
     PushQuery n E vdr requestID blkID blkBytes t"
| "handle n E L (InChits vdr requestID votes) t = Chits n E vdr requestID votes t"
| "handle n E L (InQueryFailed vdr requestID) t = QueryFailed n E vdr requestID t"
| "handle n E L (InNotify msg) t = Notify n E msg t"
| "handle n E L InGossip t = Some (Gossip E t)"

text \<open>The Bootstrapper calls \<^verbatim>\<open>finishBootstrapping\<close> and, when that returns no error,
  marks the chain as bootstrapped (section 4.7 of the specification).\<close>

definition bootstrap ::
  "nat \<Rightarrow> 'w Collab \<Rightarrow> 'w Transitive \<Rightarrow> 'w Transitive option" where
  "bootstrap n E t =
     (case finishBootstrapping n E t of
        Some (None, t1) \<Rightarrow> Some (t1\<lparr>bootstrapped := True\<rparr>)
      | _ \<Rightarrow> None)"

text \<open>A run: the handlers are called one after the other, each to completion; the
  errors they return go to the caller and are dropped here.\<close>

fun run :: "nat \<Rightarrow> 'w Collab \<Rightarrow> Limits \<Rightarrow> Input list \<Rightarrow> 'w Transitive \<Rightarrow> 'w Transitive option" where
  "run n E L [] t = Some t"
| "run n E L (inp # inps) t =
     (case handle n E L inp t of
        None \<Rightarrow> None
      | Some (err, t1) \<Rightarrow> run n E L inps t1)"

section \<open>Stub collaborators for closed examples\<close>

text \<open>A small VM and consensus, in the manner of the stubbed collaborators of a test.
  Two bytes \<open>[i, p]\<close> parse to the block \<open>i\<close> with parent \<open>p\<close>. Consensus keeps the
  set of blocks added to it; it rejects at once a block whose parent it does not have
  or that is listed in \<open>rejecting\<close>. Verification fails for the blocks in \<open>invalid\<close>.
  A poll concludes when every validator has answered.\<close>

record World =
  inTree :: "ID set"
  statusOf :: "ID \<Rightarrow> Status"
  pref :: ID
  vmPref :: ID
  lastAcc :: ID
  store :: "ID \<rightharpoonup> Block"
  invalid :: "ID set"
  rejecting :: "ID set"
  optionsOf :: "ID \<rightharpoonup> Block list"
  validators :: "ShortID list"

definition parseStub :: "bytes \<Rightarrow> error + Block" where
  "parseStub bs =
     (case bs of [i, p] \<Rightarrow> Inr (VMBlock (unat i) (unat p) bs) | _ \<Rightarrow> Inl (errCollab 0))"

definition stub :: "World Collab" where
  "stub = \<lparr>
     cInitialize = (\<lambda>i w. w\<lparr>inTree := {i}, pref := i\<rparr>),
     cIssued = (\<lambda>w b. ID b \<in> inTree w \<or> Decided (statusOf w (ID b))),
     cAdd = (\<lambda>b w. if Parent b \<in> inTree w \<and> ID b \<notin> rejecting w
                     then (Inr False, w\<lparr>inTree := insert (ID b) (inTree w), pref := ID b\<rparr>)
                     else (Inr True, w\<lparr>statusOf := (statusOf w)(ID b := Rejected)\<rparr>)),
     cPreference = pref,
     cRecordPoll = (\<lambda>vs w. (Inr ([], []), w)),
     vmParseBlock = (\<lambda>w bs. parseStub bs),
     vmGetBlock = (\<lambda>w i. case store w i of None \<Rightarrow> Inl (errCollab 1) | Some b \<Rightarrow> Inr b),
     vmBuildBlock = (\<lambda>w. (Inl (errCollab 2), w)),
     vmLastAccepted = lastAcc,
     vmSetPreference = (\<lambda>i w. w\<lparr>vmPref := i\<rparr>),
     vmStatus = (\<lambda>w b. statusOf w (ID b)),
     vmVerify = (\<lambda>b w. (if ID b \<in> invalid w then Some (errCollab 3) else None, w)),
     vmOptions = (\<lambda>w b. case optionsOf w (ID b) of None \<Rightarrow> None | Some os \<Rightarrow> Some (Inr os)),
     vSample = (\<lambda>k w. (Inr (validators w), w)),
     pFinished = (\<lambda>ps vs. ps = [])\<rparr>"

text \<open>The last accepted block is block 1; two validators; nothing else is known.\<close>

definition genesis :: Block where
  "genesis = VMBlock 1 0 [1, 0]"

definition w0 :: World where
  "w0 = \<lparr>inTree = {}, statusOf = (\<lambda>i. if i = 1 then Accepted else Processing), pref = 0,
         vmPref = 0, lastAcc = 1, store = [1 \<mapsto> genesis], invalid = {}, rejecting = {},
         optionsOf = Map.empty, validators = [7, 8]\<rparr>"

text \<open>An engine with \<open>K = 2\<close> and \<open>ConcurrentRepolls = 1\<close>, before and after
  bootstrapping.\<close>

definition fresh :: "World Transitive" where
  "fresh = Initialize 2 1 w0"

definition booted :: "World Transitive" where
  "booted = (case bootstrap 1 stub fresh of Some t \<Rightarrow> t | None \<Rightarrow> fresh)"

text \<open>The constants as the network and common packages of the repository's time set
  them: 2000 containers, four bytes for a length, \<open>2^21\<close> bytes for a message.\<close>

definition realLimits :: Limits where
  "realLimits = \<lparr>MaxContainersPerMultiPut = 2000, IntLen = 4, DefaultMaxMessageSize = 2097152\<rparr>"

text \<open>Small limits for the runs in which they play no part.\<close>

definition smallLimits :: Limits where
  "smallLimits = \<lparr>MaxContainersPerMultiPut = 3, IntLen = 4, DefaultMaxMessageSize = 100\<rparr>"

text \<open>Blocks of the examples: block 2 on the last accepted block, block 3 on block 2,
  and block 4 on block 3.\<close>

definition block2 :: Block where
  "block2 = VMBlock 2 1 [2, 1]"

definition block3 :: Block where
  "block3 = VMBlock 3 2 [3, 2]"

definition oracle3 :: Block where
  "oracle3 = VMBlock 3 1 [3, 1]"

definition option4 :: Block where
  "option4 = VMBlock 4 3 [4, 3]"

text \<open>The engine after bootstrapping, with a VM for which block 2 fails verification.\<close>

definition invalidState :: "World Transitive" where
  "invalidState = booted\<lparr>world := (world booted)\<lparr>invalid := {2}\<rparr>\<rparr>"

text \<open>The engine after bootstrapping and a Put of block 3 from validator 9: block 3 is
  pinned and pending, its Issuer waits for block 2, and block 2 has been requested.\<close>

definition waiting :: "World Transitive" where
  "waiting = booted\<lparr>processing := [3 \<mapsto> block3], pending := {3},
                     blocked := [({2}, Issuer block3)], blkReqs := [(9, 1, 2)], RequestID := 1,
                     calls := [VMSetPreference 1, BlockerRegister (Issuer block3) {2}, SenderGet 9 1 2]\<rparr>"

text \<open>The engine after bootstrapping, with a VM for which block 3 on the last accepted
  block is an oracle block with the one option block 4, and a consensus that rejects
  block 4 at once. Block 4 is pinned and is in the dropped cache.\<close>

definition oracleState :: "World Transitive" where
  "oracleState = booted
     \<lparr>world := (world booted)\<lparr>optionsOf := [3 \<mapsto> [option4]], rejecting := {4}\<rparr>,
      processing := [4 \<mapsto> option4],
      droppedCache := \<lparr>Size = droppedCacheSize, entries = [(4, option4)]\<rparr>\<rparr>"

section \<open>Properties\<close>

subsection \<open>Handlers before bootstrapping has finished\<close>

text \<open>C2, as amended. While \<^verbatim>\<open>IsBootstrapped()\<close> is false, each of Put, GetFailed,
  PullQuery, PushQuery, Chits, QueryFailed and Notify returns nil and leaves the whole
  state as it was: no field changes and nothing is sent or called. (Get, GetAncestors
  and Gossip have no such test.)\<close>

theorem handlers_while_bootstrapping:
  "\<not> IsBootstrapped t \<Longrightarrow>
     Put n E vdr requestID blkID blkBytes t = Some (None, t)
   \<and> GetFailed vdr requestID t = (None, t)
   \<and> PullQuery n E vdr requestID blkID t = Some (None, t)
   \<and> PushQuery n E vdr requestID blkID blkBytes t = Some (None, t)
   \<and> Chits n E vdr requestID votes t = Some (None, t)
   \<and> QueryFailed n E vdr requestID t = Some (None, t)
   \<and> Notify n E msg t = Some (None, t)"
  by (simp add: Put_def GetFailed_def PullQuery_def PushQuery_def Chits_def QueryFailed_def
      Notify_def)

lemma fresh_not_bootstrapped: "\<not> IsBootstrapped fresh"
  by (simp add: fresh_def Initialize_def IsBootstrapped_def)

theorem handlers_while_bootstrapping_witness:
  "\<not> IsBootstrapped fresh
   \<and> Put 0 stub 9 4 2 [2, 1] fresh = Some (None, fresh)
   \<and> GetFailed 9 4 fresh = (None, fresh)
   \<and> PullQuery 0 stub 9 4 2 fresh = Some (None, fresh)
   \<and> PushQuery 0 stub 9 4 2 [2, 1] fresh = Some (None, fresh)
   \<and> Chits 0 stub 9 4 {2} fresh = Some (None, fresh)
   \<and> QueryFailed 0 stub 9 4 fresh = Some (None, fresh)
   \<and> Notify 0 stub PendingTxs fresh = Some (None, fresh)"
  using handlers_while_bootstrapping [OF fresh_not_bootstrapped, of 0 stub 9 4 2 "[2, 1]" "{2}" PendingTxs]
    fresh_not_bootstrapped
  by simp

text \<open>The claim as stated fails for \<^verbatim>\<open>Get\<close>: before bootstrapping has finished, a Get for
  the last accepted block is answered with a Put.\<close>

theorem Get_answers_while_bootstrapping:
  "\<not> IsBootstrapped fresh
   \<and> calls fresh = []
   \<and> calls (snd (Get stub 9 4 1 fresh)) = [SenderPut 9 4 1 [1, 0]]"
  by (simp add: fresh_def IsBootstrapped_def Initialize_def Get_def GetBlock_def lruGet_def
      stub_def w0_def genesis_def emit_def)

subsection \<open>Chits that do not carry exactly one vote\<close>

text \<open>C6. For every validator, request id and vote set whose cardinality is not 1,
  \<^verbatim>\<open>Chits\<close> returns what \<^verbatim>\<open>QueryFailed\<close> returns: the same error and the same state,
  messages and calls included. What that is: nothing before bootstrapping has finished,
  and afterwards the registration of a Voter with no response and no dependencies.\<close>

theorem Chits_routes_to_QueryFailed:
  "card votes \<noteq> 1 \<Longrightarrow>
     Chits n E vdr requestID votes t = QueryFailed n E vdr requestID t
   \<and> QueryFailed n E vdr requestID t =
       (if \<not> IsBootstrapped t then Some (None, t)
        else map_option (\<lambda>t1. (errs t1, t1)) (Register n E (Voter vdr requestID None) {} t))"
  by (simp add: Chits_def QueryFailed_def split: option.splits)

theorem Chits_routes_to_QueryFailed_witness:
  "card {2, 3 :: ID} \<noteq> 1
   \<and> Chits 1 stub 9 4 {2, 3} booted = QueryFailed 1 stub 9 4 booted
   \<and> QueryFailed 1 stub 9 4 booted =
       (if \<not> IsBootstrapped booted then Some (None, booted)
        else map_option (\<lambda>t1. (errs t1, t1)) (Register 1 stub (Voter 9 4 None) {} booted))"
proof -
  have h: "card {2, 3 :: ID} \<noteq> 1" by simp
  show ?thesis
    using Chits_routes_to_QueryFailed [OF h, of 1 stub 9 4 booted] h by blast
qed

subsection \<open>Delivering a block that is already issued\<close>

text \<open>C10. If \<^verbatim>\<open>Consensus.Issued(blk)\<close> is true, \<^verbatim>\<open>deliver(blk)\<close> returns nil at once and
  the state it returns is the state it was given: pending, processing, blkReqs, both
  caches and the polls are unchanged, and nothing is added to the calls, so there is no
  Verify, no \<^verbatim>\<open>Consensus.Add\<close>, no query and no notification of the Blocker.\<close>

theorem deliver_Issued_noop:
  "cIssued E (world t) blk \<Longrightarrow> deliver (Suc n) E blk t = Some (None, t)"
  by simp

lemma genesis_Issued: "cIssued stub (world fresh) genesis"
  by (simp add: stub_def fresh_def Initialize_def w0_def genesis_def Decided_def)

theorem deliver_Issued_noop_witness:
  "cIssued stub (world fresh) genesis \<and> deliver (Suc 0) stub genesis fresh = Some (None, fresh)"
  using deliver_Issued_noop [OF genesis_Issued, of 0] genesis_Issued by simp

subsection \<open>The number of outstanding polls\<close>

lemma pollsLen_pullSample: "pollsLen (polls (pullSample E blkID t)) \<le> pollsLen (polls t) + 1"
  by (auto simp: pullSample_def emit_def Let_def pollsAdd_def pollsLen_def
      split: prod.splits sum.splits bool.splits if_splits)

lemma pollsLen_pushSample: "pollsLen (polls (pushSample E blk t)) \<le> pollsLen (polls t) + 1"
  by (auto simp: pushSample_def emit_def Let_def pollsAdd_def pollsLen_def
      split: prod.splits sum.splits bool.splits if_splits)

lemma repoll_loop_bound:
  "pollsLen (polls t) \<le> i \<Longrightarrow>
   pollsLen (polls (repoll_loop E prefID i t)) \<le> max i (ConcurrentRepolls t)"
proof (induction E prefID i t rule: repoll_loop.induct)
  case (1 E prefID i t)
  show ?case
  proof (cases "i < ConcurrentRepolls t")
    case False
    with "1.prems" show ?thesis by simp
  next
    case True
    have "pollsLen (polls (pullSample E prefID t)) \<le> i + 1"
      using pollsLen_pullSample [of E prefID t] "1.prems" by linarith
    from "1.IH" [OF True this] True show ?thesis
      by (subst repoll_loop.simps) simp
  qed
qed

text \<open>C4, as amended. \<^verbatim>\<open>repoll\<close> never takes the number of outstanding polls above
  \<^verbatim>\<open>ConcurrentRepolls\<close>: after it the number is at most the larger of the number before
  and \<^verbatim>\<open>ConcurrentRepolls\<close>. \<^verbatim>\<open>pushSample\<close>, called once for every block delivered,
  adds at most one poll and does not look at \<^verbatim>\<open>ConcurrentRepolls\<close>.\<close>

theorem repoll_bound:
  "pollsLen (polls (repoll E t)) \<le> max (pollsLen (polls t)) (ConcurrentRepolls t)
   \<and> pollsLen (polls (pushSample E blk t)) \<le> pollsLen (polls t) + 1"
proof
  show "pollsLen (polls (repoll E t)) \<le> max (pollsLen (polls t)) (ConcurrentRepolls t)"
    unfolding repoll_def by (rule repoll_loop_bound) simp
  show "pollsLen (polls (pushSample E blk t)) \<le> pollsLen (polls t) + 1"
    by (rule pollsLen_pushSample)
qed

text \<open>The claim as stated fails on a reachable state: with \<^verbatim>\<open>ConcurrentRepolls = 1\<close>,
  after bootstrapping and two Put messages, for block 2 on the last accepted block and
  block 3 on block 2, two polls are outstanding.\<close>

theorem polls_exceed_ConcurrentRepolls:
  "map_option (\<lambda>t. (IsBootstrapped t, ConcurrentRepolls t, pollsLen (polls t)))
     (run 2 stub smallLimits [InPut 9 0 2 [2, 1], InPut 9 0 3 [3, 2]] booted) = Some (True, 1, 2)"
  by code_simp

subsection \<open>The size of a MultiPut\<close>

text \<open>The size of a list of containers on the wire: every container with its length
  prefix.\<close>

definition containersLen :: "Limits \<Rightarrow> bytes list \<Rightarrow> nat" where
  "containersLen L cs = sum_list (map (\<lambda>c. length c + IntLen L) cs)"

lemma containersLen_append:
  "containersLen L (cs @ [c]) = containersLen L cs + length c + IntLen L"
  by (simp add: containersLen_def)

lemma GetAncestors_loop_bounds:
  assumes "GetAncestors_loop E L inTime parentID numFetched anc len t = ((anc', len'), t')"
    and "len = containersLen L anc"
    and "length anc \<le> numFetched"
  shows "len' = containersLen L anc'
       \<and> length anc' \<le> max numFetched (MaxContainersPerMultiPut L)
       \<and> (anc' = anc \<or> len' < maxContainersLen L)"
  using assms
proof (induction E L inTime parentID numFetched anc len t rule: GetAncestors_loop.induct)
  case (1 E L inTime parentID numFetched anc len t)
  show ?case
  proof (cases "numFetched < MaxContainersPerMultiPut L \<and> inTime numFetched")
    case False
    with "1.prems" show ?thesis by auto
  next
    case True
    obtain r t1 where g: "GetBlock E parentID t = (r, t1)" by (cases "GetBlock E parentID t")
    show ?thesis
    proof (cases r)
      case (Inl err)
      with True g "1.prems" show ?thesis by auto
    next
      case (Inr blk)
      let ?newLen = "IntLen L + len + length (Bytes blk)"
      show ?thesis
      proof (cases "?newLen < maxContainersLen L")
        case False
        with True g Inr "1.prems" show ?thesis by (auto simp: Let_def)
      next
        case fits: True
        from True g Inr fits "1.prems"
        have again: "GetAncestors_loop E L inTime parentID (numFetched + 1) (anc @ [Bytes blk]) ?newLen t1
                     = ((anc', len'), t')"
          by (simp add: Let_def)
        have nl: "?newLen = containersLen L (anc @ [Bytes blk])"
          using "1.prems"(2) by (simp add: containersLen_append)
        moreover have "length (anc @ [Bytes blk]) \<le> numFetched + 1"
          using "1.prems"(3) by simp
        ultimately have "len' = containersLen L anc'
            \<and> length anc' \<le> max (numFetched + 1) (MaxContainersPerMultiPut L)
            \<and> (anc' = anc @ [Bytes blk] \<or> len' < maxContainersLen L)"
          using "1.IH" [OF True g [symmetric] Inr refl refl fits again] by blast
        with True fits nl show ?thesis by auto
      qed
    qed
  qed
qed

text \<open>C5, as amended. When \<^verbatim>\<open>GetAncestors\<close> finds the block it is asked for, it sends one
  MultiPut. The message holds at most \<^verbatim>\<open>MaxContainersPerMultiPut\<close> containers (one, if
  that constant is 0). The block asked for is always in it, whatever its size; if the
  message holds more than this one container, its total size, every container's
  \<^verbatim>\<open>IntLen\<close> prefix counted, is strictly below \<^verbatim>\<open>maxContainersLen\<close>.\<close>

theorem GetAncestors_bounds:
  "GetBlock E blkID t = (Inr blk, t1) \<Longrightarrow>
     \<exists>ancestorsBytes t2.
       GetAncestors E L inTime vdr requestID blkID t
         = (None, emit (SenderMultiPut vdr requestID ancestorsBytes) t2)
     \<and> length ancestorsBytes \<le> max 1 (MaxContainersPerMultiPut L)
     \<and> (ancestorsBytes = [Bytes blk] \<or> containersLen L ancestorsBytes < maxContainersLen L)"
proof -
  assume g: "GetBlock E blkID t = (Inr blk, t1)"
  obtain anc len t2 where l:
    "GetAncestors_loop E L inTime (Parent blk) 1 [Bytes blk] (length (Bytes blk) + IntLen L) t1
       = ((anc, len), t2)"
    by (metis surj_pair)
  have "length (Bytes blk) + IntLen L = containersLen L [Bytes blk]"
    by (simp add: containersLen_def)
  from GetAncestors_loop_bounds [OF l this]
  have "length anc \<le> max 1 (MaxContainersPerMultiPut L)
      \<and> (anc = [Bytes blk] \<or> containersLen L anc < maxContainersLen L)"
    by auto
  moreover have "GetAncestors E L inTime vdr requestID blkID t
      = (None, emit (SenderMultiPut vdr requestID anc) t2)"
    using g l by (simp add: GetAncestors_def)
  ultimately show ?thesis by blast
qed

text \<open>A state that holds block 5, of 1677720 bytes, in its processing map.\<close>

definition bigBlock :: Block where
  "bigBlock = VMBlock 5 1 (replicate 1677720 0)"

definition bigState :: "World Transitive" where
  "bigState = fresh\<lparr>processing := [5 \<mapsto> bigBlock]\<rparr>"

lemma GetBlock_bigState: "GetBlock stub 5 bigState = (Inr bigBlock, bigState)"
  by (simp add: GetBlock_def bigState_def)

theorem GetAncestors_bounds_witness:
  "GetBlock stub 5 bigState = (Inr bigBlock, bigState)
   \<and> (\<exists>ancestorsBytes t2.
         GetAncestors stub realLimits (\<lambda>i. True) 9 4 5 bigState
           = (None, emit (SenderMultiPut 9 4 ancestorsBytes) t2)
       \<and> length ancestorsBytes \<le> max 1 (MaxContainersPerMultiPut realLimits)
       \<and> (ancestorsBytes = [Bytes bigBlock]
            \<or> containersLen realLimits ancestorsBytes < maxContainersLen realLimits))"
  using GetAncestors_bounds [OF GetBlock_bigState, of realLimits "\<lambda>i. True" 9 4] GetBlock_bigState
  by blast

text \<open>The claim as stated fails for a block that is by itself as large as the budget:
  with the limits of the network package, \<^verbatim>\<open>maxContainersLen\<close> is 1677721 bytes, and the
  answer to GetAncestors for block 5 is a MultiPut of 1677724 bytes.\<close>

theorem GetAncestors_oversized_first_block:
  "GetAncestors stub realLimits (\<lambda>i. False) 9 4 5 bigState
     = (None, emit (SenderMultiPut 9 4 [replicate 1677720 0]) bigState)
   \<and> containersLen realLimits [replicate 1677720 0] = 1677724
   \<and> maxContainersLen realLimits = 1677721"
  by (simp add: GetAncestors_def GetBlock_def bigState_def bigBlock_def containersLen_def
      maxContainersLen_def realLimits_def)

subsection \<open>What \<open>Abandon\<close> leaves alone\<close>

lemma Abandon_loop_frame:
  "processing (Abandon_loop is t) = processing t
   \<and> droppedCache (Abandon_loop is t) = droppedCache t
   \<and> decidedCache (Abandon_loop is t) = decidedCache t
   \<and> world (Abandon_loop is t) = world t
   \<and> errs (Abandon_loop is t) = errs t
   \<and> polls (Abandon_loop is t) = polls t
   \<and> blkReqs (Abandon_loop is t) = blkReqs t
   \<and> RequestID (Abandon_loop is t) = RequestID t
   \<and> bootstrapped (Abandon_loop is t) = bootstrapped t
   \<and> K (Abandon_loop is t) = K t
   \<and> ConcurrentRepolls (Abandon_loop is t) = ConcurrentRepolls t"
  by (induction "is" t rule: Abandon_loop.induct) (simp_all add: Let_def emit_def)

lemma Abandon_loop_pending: "pending (Abandon_loop is t) \<subseteq> pending t"
  by (induction "is" t rule: Abandon_loop.induct) (auto simp: Let_def emit_def)

lemma Abandon_loop_calls:
  "\<exists>js. calls (Abandon_loop is t) = calls t @ map BlockerAbandon js"
proof (induction "is" t rule: Abandon_loop.induct)
  case (1 t)
  show ?case by (rule exI [of _ "[]"]) simp
next
  case (2 i rest t)
  from "2.IH" [OF refl refl refl] obtain js where
    "calls (Abandon_loop (i # rest) t) = (calls t @ [BlockerAbandon i]) @ map BlockerAbandon js"
    by (auto simp: Let_def emit_def)
  then show ?case
    by (intro exI [of _ "i # js"]) simp
qed

lemma Abandon_calls:
  "\<exists>js. calls (Abandon i t) = calls t @ BlockerAbandon i # map BlockerAbandon js"
proof -
  let ?t2 = "(emit (BlockerAbandon i) t)
      \<lparr>blocked := filter (\<lambda>e. \<not> attached i e) (blocked t),
       pending := pending t - set (map ID (issuerBlocks (filter (attached i) (blocked t))))\<rparr>"
  obtain js where
    "calls (Abandon_loop (map ID (issuerBlocks (filter (attached i) (blocked t))) @ []) ?t2)
       = calls ?t2 @ map BlockerAbandon js"
    using Abandon_loop_calls by blast
  then show ?thesis
    by (intro exI [of _ js]) (simp add: Abandon_def Let_def emit_def)
qed

lemma Abandon_frame:
  "processing (Abandon i t) = processing t
   \<and> droppedCache (Abandon i t) = droppedCache t
   \<and> decidedCache (Abandon i t) = decidedCache t
   \<and> world (Abandon i t) = world t
   \<and> errs (Abandon i t) = errs t
   \<and> polls (Abandon i t) = polls t
   \<and> blkReqs (Abandon i t) = blkReqs t
   \<and> RequestID (Abandon i t) = RequestID t
   \<and> bootstrapped (Abandon i t) = bootstrapped t
   \<and> K (Abandon i t) = K t
   \<and> ConcurrentRepolls (Abandon i t) = ConcurrentRepolls t"
  unfolding Abandon_def by (rule Abandon_loop_frame)

lemma Abandon_pending: "pending (Abandon i t) \<subseteq> pending t"
  unfolding Abandon_def by (rule Abandon_loop_pending)

lemma lruPut_lookup: "0 < Size c \<Longrightarrow> map_of (entries (lruPut k v c)) k = Some v"
  by (cases "filter (\<lambda>e. fst e \<noteq> k) (entries c)") (simp_all add: lruPut_def Let_def)

text \<open>C7. For every block on which \<^verbatim>\<open>deliver\<close> is called (and which is not issued
  yet) and whose \<^verbatim>\<open>Verify()\<close> returns an error, \<^verbatim>\<open>deliver\<close> returns \<^verbatim>\<open>t.errs.Err\<close> and
  the state that \<^verbatim>\<open>Abandon(blk.ID())\<close> makes of the given one with the block's id out of
  \<open>pending\<close>, the block out of the processing map and in the dropped cache under its own
  id. In that state the id is not pending, the block is not in the processing map and
  the dropped cache is the old one after \<^verbatim>\<open>Put(blkID, blk)\<close>; what was called is
  \<^verbatim>\<open>Verify\<close>, \<^verbatim>\<open>Abandon(blk.ID())\<close> and the Abandons of the cancelled issuers' blocks, so
  \<^verbatim>\<open>Consensus.Add\<close> is called for no block.\<close>

theorem deliver_Verify_fails:
  assumes "\<not> cIssued E (world t) blk"
    and "blkVerify E blk (world t) = (Some err, w)"
  shows "\<exists>t' js.
      deliver (Suc n) E blk t = Some (errs t', t')
    \<and> t' = Abandon (ID blk)
             (t\<lparr>pending := pending t - {ID blk}, world := w,
                calls := calls t @ [BlockVerify blk],
                processing := (processing t)(ID blk := None),
                droppedCache := lruPut (ID blk) blk (droppedCache t)\<rparr>)
    \<and> ID blk \<notin> pending t'
    \<and> processing t' = (processing t)(ID blk := None)
    \<and> droppedCache t' = lruPut (ID blk) blk (droppedCache t)
    \<and> (0 < Size (droppedCache t) \<longrightarrow> map_of (entries (droppedCache t')) (ID blk) = Some blk)
    \<and> calls t' = calls t @ BlockVerify blk # BlockerAbandon (ID blk) # map BlockerAbandon js"
proof -
  let ?t4 = "t\<lparr>pending := pending t - {ID blk}, world := w,
                calls := calls t @ [BlockVerify blk],
                processing := (processing t)(ID blk := None),
                droppedCache := lruPut (ID blk) blk (droppedCache t)\<rparr>"
  let ?t' = "Abandon (ID blk) ?t4"
  have d: "deliver (Suc n) E blk t = Some (errs ?t', ?t')"
    using assms by (simp add: deliver_add_def Let_def emit_def)
  obtain js where c: "calls ?t' = calls ?t4 @ BlockerAbandon (ID blk) # map BlockerAbandon js"
    using Abandon_calls by blast
  have p: "ID blk \<notin> pending ?t'"
    using Abandon_pending [of "ID blk" ?t4] by auto
  have f: "processing ?t' = (processing t)(ID blk := None)"
    "droppedCache ?t' = lruPut (ID blk) blk (droppedCache t)"
    by (simp_all add: Abandon_frame)
  have l: "0 < Size (droppedCache t) \<longrightarrow> map_of (entries (droppedCache ?t')) (ID blk) = Some blk"
    by (simp add: f lruPut_lookup)
  from d c p f l show ?thesis
    by (intro exI [of _ ?t'] exI [of _ js]) simp
qed

lemma booted_eq:
  "booted = fresh\<lparr>bootstrapped := True, world := w0\<lparr>inTree := {1}, pref := 1, vmPref := 1\<rparr>,
                   calls := [VMSetPreference 1]\<rparr>"
  by (simp add: booted_def bootstrap_def finishBootstrapping_def fresh_def Initialize_def stub_def
      w0_def genesis_def emit_def Let_def)

lemma block2_not_Issued: "\<not> cIssued stub (world invalidState) block2"
  by (simp add: invalidState_def booted_eq fresh_def Initialize_def stub_def w0_def block2_def
      Decided_def)

lemma block2_Verify_fails:
  "blkVerify stub block2 (world invalidState) = (Some (errCollab 3), world invalidState)"
  by (simp add: invalidState_def booted_eq fresh_def Initialize_def stub_def w0_def block2_def)

theorem deliver_Verify_fails_witness:
  "\<not> cIssued stub (world invalidState) block2
   \<and> blkVerify stub block2 (world invalidState) = (Some (errCollab 3), world invalidState)
   \<and> (\<exists>t' js.
        deliver (Suc 0) stub block2 invalidState = Some (errs t', t')
      \<and> t' = Abandon (ID block2)
               (invalidState\<lparr>pending := pending invalidState - {ID block2},
                  world := world invalidState,
                  calls := calls invalidState @ [BlockVerify block2],
                  processing := (processing invalidState)(ID block2 := None),
                  droppedCache := lruPut (ID block2) block2 (droppedCache invalidState)\<rparr>)
      \<and> ID block2 \<notin> pending t'
      \<and> processing t' = (processing invalidState)(ID block2 := None)
      \<and> droppedCache t' = lruPut (ID block2) block2 (droppedCache invalidState)
      \<and> (0 < Size (droppedCache invalidState)
           \<longrightarrow> map_of (entries (droppedCache t')) (ID block2) = Some block2)
      \<and> calls t' = calls invalidState @ BlockVerify block2 # BlockerAbandon (ID block2)
                     # map BlockerAbandon js)"
  using deliver_Verify_fails [OF block2_not_Issued block2_Verify_fails, of 0]
    block2_not_Issued block2_Verify_fails
  by blast

subsection \<open>An option that Consensus rejects at once\<close>

text \<open>C3 is not what the code does. \<^verbatim>\<open>deliver\<close> of the oracle block 3, whose option
  block 4 verifies and is rejected by \<^verbatim>\<open>Consensus.Add\<close> at once: block 4 enters the
  decided cache and leaves the processing map, but it stays in the dropped cache,
  because line 706 evicts \<^verbatim>\<open>blkID\<close>, the id of block 3. Delivered by itself
  (lines 680-682), the same block 4 does leave the dropped cache.\<close>

theorem deliver_rejected_option_stays_dropped:
  "map_option (\<lambda>(e, t). (e, map fst (entries (decidedCache t)),
                            map fst (entries (droppedCache t)), processing t 4))
     (deliver 1 stub oracle3 oracleState) = Some (None, [4], [4], None)
   \<and> map_option (\<lambda>(e, t). (e, map fst (entries (decidedCache t)),
                            map fst (entries (droppedCache t)), processing t 4))
     (deliver 1 stub option4 (oracleState\<lparr>world := (world oracleState)\<lparr>inTree := {1, 3}\<rparr>\<rparr>))
       = Some (None, [4], [], None)"
  by code_simp

subsection \<open>The same Put twice\<close>

lemma lruEvict_absent: "\<not> lruContains k c \<Longrightarrow> lruEvict k c = c"
proof -
  assume "\<not> lruContains k c"
  then have "k \<notin> fst ` set (entries c)"
    by (simp add: lruContains_def map_of_eq_None_iff)
  then have "filter (\<lambda>e. fst e \<noteq> k) (entries c) = entries c"
    by (auto simp: filter_id_conv)
  then show ?thesis by (simp add: lruEvict_def)
qed

lemma pin_idle:
  "processing t key = Some blk \<Longrightarrow> \<not> lruContains evictedID (droppedCache t) \<Longrightarrow>
   pin key evictedID blk t = t"
  by (simp add: pin_def lruEvict_absent fun_upd_idem)

text \<open>C8, as amended. A Put for a block that is already pending or already issued to
  Consensus, as it is after a first Put that queued or issued it, only pins the block
  again: it returns nil, and the state is the given one with \<^verbatim>\<open>processing[blk.ID()] = blk\<close>
  and \<^verbatim>\<open>droppedCache.Evict(blkID)\<close> if the block's status is Processing, and the given
  one otherwise; nothing is issued, requested, registered or sent. If the block is still
  pinned under its id and \<^verbatim>\<open>blkID\<close> is not in the dropped cache, the state is the given
  one.\<close>

theorem Put_pending_or_issued:
  assumes "IsBootstrapped t"
    and "vmParseBlock E (world t) blkBytes = Inr blk"
    and "cIssued E (world t) blk \<or> ID blk \<in> pending t"
  shows "Put (Suc n) E vdr requestID blkID blkBytes t =
           Some (None, if blkStatus E (world t) blk = Processing then pin (ID blk) blkID blk t else t)
       \<and> pin (ID blk) blkID blk t
           = t\<lparr>processing := (processing t)(ID blk \<mapsto> blk),
               droppedCache := lruEvict blkID (droppedCache t)\<rparr>
       \<and> (processing t (ID blk) = Some blk \<and> \<not> lruContains blkID (droppedCache t)
            \<longrightarrow> Put (Suc n) E vdr requestID blkID blkBytes t = Some (None, t))"
proof -
  let ?t1 = "if blkStatus E (world t) blk = Processing then pin (ID blk) blkID blk t else t"
  have w: "world ?t1 = world t" "pending ?t1 = pending t"
    by (simp_all add: pin_def)
  have "issueFrom (Suc n) E vdr blk ?t1 = Some ((cIssued E (world t) blk, None), ?t1)"
    using assms(3) unfolding issueFrom_def issueFrom_loop.simps w by auto
  then have p: "Put (Suc n) E vdr requestID blkID blkBytes t = Some (None, ?t1)"
    using assms(1,2) by (simp add: Put_def Let_def)
  have "processing t (ID blk) = Some blk \<and> \<not> lruContains blkID (droppedCache t) \<longrightarrow> ?t1 = t"
    by (simp add: pin_idle)
  with p show ?thesis
    by (simp add: pin_def)
qed

text \<open>The state \<open>waiting\<close> is the one the engine reaches.\<close>

lemma waiting_reached:
  "map_option (\<lambda>t. (processing t 3, pending t, blocked t, blkReqs t, RequestID t, map forget (calls t)))
     (run 1 stub smallLimits [InPut 9 0 3 [3, 2]] booted)
   = Some (Some block3, {3}, [({2}, Issuer block3)], [(9, 1, 2)], 1,
           [VMSetPreference 1, BlockerRegister (Issuer block3) {2}, SenderGet 9 1 2])"
  by code_simp

lemma w1: "IsBootstrapped waiting"
  by (simp add: waiting_def booted_eq IsBootstrapped_def)

lemma w2: "vmParseBlock stub (world waiting) [3, 2] = Inr block3"
  by (simp add: stub_def parseStub_def block3_def)

lemma w3: "cIssued stub (world waiting) block3 \<or> ID block3 \<in> pending waiting"
  by (simp add: waiting_def block3_def)

lemma w4: "processing waiting (ID block3) = Some block3 \<and> \<not> lruContains 3 (droppedCache waiting)"
  by (simp add: waiting_def block3_def booted_eq fresh_def Initialize_def lruContains_def)

theorem Put_pending_or_issued_witness:
  "IsBootstrapped waiting
   \<and> vmParseBlock stub (world waiting) [3, 2] = Inr block3
   \<and> (cIssued stub (world waiting) block3 \<or> ID block3 \<in> pending waiting)
   \<and> processing waiting (ID block3) = Some block3 \<and> \<not> lruContains 3 (droppedCache waiting)
   \<and> Put (Suc 0) stub 9 0 3 [3, 2] waiting = Some (None, waiting)"
  using Put_pending_or_issued [OF w1 w2 w3, of 0 9 0 3] w1 w2 w3 w4 by blast

text \<open>The claim as stated fails for a block that fails verification: after the first
  Put of block 2 the block is neither pending nor issued, so the second Put does not
  stop short; it registers an Issuer, verifies the block and abandons it once more.\<close>

theorem Put_twice_verifies_twice:
  "(case Put 2 stub 9 0 2 [2, 1] invalidState of
      None \<Rightarrow> None
    | Some (e1, t1) \<Rightarrow>
        (case Put 2 stub 9 0 2 [2, 1] t1 of
           None \<Rightarrow> None
         | Some (e2, t2) \<Rightarrow>
             Some (2 \<in> pending t1, cIssued stub (world t1) block2,
                   map forget (drop (length (calls t1)) (calls t2)))))
   = Some (False, False,
           [BlockerRegister (Issuer block2) {}, BlockVerify block2, BlockerAbandon 2])"
  by code_simp

end
